theory Spec2Isabelle
  imports Complex_Main
begin

section \<open>Thermal-Craft: hydraulic network model and heat grid simulator\<close>

text \<open>
  Shallow embedding of \<^verbatim>\<open>src/models/PPipe.ts\<close>, \<^verbatim>\<open>src/models/CostAPI.ts\<close>,
  \<^verbatim>\<open>src/solvers/HydraulicSolver.ts\<close> and \<^verbatim>\<open>js/heat-simulation.js\<close>.

  Numbers: a JavaScript \<^verbatim>\<open>number\<close> is modelled as a \<^typ>\<open>real\<close>, so arithmetic is exact
  (no rounding, no NaN, no Infinity). Where the source can divide by zero or index outside
  an array and a property depends on it, the model has an explicit branch for it.
  \<^verbatim>\<open>Math.sqrt\<close>, \<^verbatim>\<open>Math.asin\<close>, \<^verbatim>\<open>Math.log10\<close>, \<^verbatim>\<open>Math.pow(x, 0.9)\<close> and \<^verbatim>\<open>Math.PI\<close>
  are \<^term>\<open>sqrt\<close>, \<^term>\<open>arcsin\<close>, \<^term>\<open>log 10\<close>, \<^term>\<open>\<lambda>x::real. x powr 0.9\<close> and \<^term>\<open>pi\<close>;
  they agree on the arguments the theorems below use them at (non-negative radicands,
  arguments of \<open>asin\<close> in \<open>[-1, 1]\<close>, positive arguments of the logarithm and the power).
\<close>

subsection \<open>Data model (PPipe.ts)\<close>

text \<open>Field names follow the source; \<open>x\<close>, \<open>y\<close>, \<open>id\<close> and \<open>end\<close> are renamed
  (\<open>px\<close>, \<open>py\<close>, \<open>seg_id\<close>, \<open>end_point\<close>) because Isabelle reserves them or they would
  capture variable names. An optional field is an \<open>option\<close>; \<open>None\<close> is \<open>undefined\<close>.\<close>

record Point2D =
  px :: real
  py :: real

text \<open>The identifier \<^verbatim>\<open>`seg_${n}`\<close> is kept as its template and counter.\<close>

datatype segment_id = Seg nat

record PipeSegment =
  seg_id :: segment_id
  start :: Point2D
  end_point :: Point2D
  diameter :: real
  is_curved :: bool
  control_points :: "Point2D list option"
  bend_radius :: "real option"

record HeatingCircuit =
  circuit_id :: string
  room_id :: string
  segments :: "PipeSegment list"
  flow_rate :: real
  supply_temperature :: real
  return_temperature :: real

definition WATER_DENSITY :: real where
  "WATER_DENSITY = 998.2"

definition WATER_VISCOSITY :: real where
  "WATER_VISCOSITY = 0.001002"

definition PIPE_ROUGHNESS :: real where
  "PIPE_ROUGHNESS = 0.0000015"

definition CRITICAL_PRESSURE_LOSS :: real where
  "CRITICAL_PRESSURE_LOSS = 300"

subsection \<open>Geometry kernel\<close>

text \<open>\<^verbatim>\<open>Math.sqrt(dx * dx + dy * dy)\<close> between two points; the source writes it out at
  each of its four uses.\<close>

definition distance :: "Point2D \<Rightarrow> Point2D \<Rightarrow> real" where
  "distance p q =
     (let dx = px q - px p; dy = py q - py p in sqrt (dx * dx + dy * dy))"

text \<open>The spline branch: the \<^verbatim>\<open>for (const cp of segment.control_points)\<close> loop with its
  accumulators \<open>length\<close> and \<open>prev\<close>, then the final leg to \<open>end\<close>.\<close>

fun polylineLength :: "real \<Rightarrow> Point2D \<Rightarrow> Point2D list \<Rightarrow> Point2D \<Rightarrow> real" where
  "polylineLength len prev [] e = len + distance prev e"
| "polylineLength len prev (cp # cps) e = polylineLength (len + distance prev cp) cp cps e"

text \<open>\<^verbatim>\<open>if (segment.bend_radius)\<close> is a truthiness test: \<open>undefined\<close> and \<open>0\<close> are falsy, any
  other radius (also a negative one) is truthy.\<close>

definition calculateSegmentLength :: "PipeSegment \<Rightarrow> real" where
  "calculateSegmentLength segment =
     (if \<not> is_curved segment then distance (start segment) (end_point segment)
      else if bend_radius segment \<noteq> None \<and> bend_radius segment \<noteq> Some 0 then
        (let chordLength = distance (start segment) (end_point segment);
             radius = the (bend_radius segment);
             ratio = chordLength / (2 * radius);
             clampedRatio = max (- 1) (min 1 ratio);
             angle = 2 * arcsin clampedRatio
         in radius * angle)
      else if control_points segment \<noteq> None \<and> the (control_points segment) \<noteq> [] then
        polylineLength 0 (start segment) (the (control_points segment)) (end_point segment)
      else distance (start segment) (end_point segment))"

definition calculateCircuitLength :: "HeatingCircuit \<Rightarrow> real" where
  "calculateCircuitLength circuit =
     foldl (\<lambda>total segment. total + calculateSegmentLength segment) 0 (segments circuit)"

subsection \<open>Hydraulic analyzer\<close>

definition calculateReynolds :: "real \<Rightarrow> real \<Rightarrow> real" where
  "calculateReynolds velocity diam = (WATER_DENSITY * velocity * diam) / WATER_VISCOSITY"

definition calculateFrictionFactor :: "real \<Rightarrow> real \<Rightarrow> real" where
  "calculateFrictionFactor reynolds diam =
     (let roughness = PIPE_ROUGHNESS;
          term1 = roughness / (3.7 * diam);
          term2 = 5.74 / (reynolds powr 0.9)
      in 0.25 / (log 10 (term1 + term2))\<^sup>2)"

definition calculatePressureLoss :: "HeatingCircuit \<Rightarrow> real" where
  "calculatePressureLoss circuit =
     (let len = calculateCircuitLength circuit;
          flowRateCubicMetersPerSec = flow_rate circuit / 3600 / 1000
      in case segments circuit of
           [] \<Rightarrow> 0
         | first # _ \<Rightarrow>
             (let diam = diameter first;
                  area = pi * (diam / 2)\<^sup>2;
                  velocity = flowRateCubicMetersPerSec / area;
                  reynolds = calculateReynolds velocity diam;
                  frictionFactor = calculateFrictionFactor reynolds diam;
                  pressureLossPa =
                    frictionFactor * (len / diam) * (WATER_DENSITY * velocity\<^sup>2 / 2)
              in pressureLossPa * 0.01))"

definition isCriticalCircuit :: "HeatingCircuit \<Rightarrow> bool" where
  "isCriticalCircuit circuit =
     (let pressureLoss = calculatePressureLoss circuit
      in pressureLoss > CRITICAL_PRESSURE_LOSS)"

subsection \<open>Cost collaborator (CostAPI.ts)\<close>

text \<open>Of a \<open>MaterialPrice\<close> only \<open>id\<close> and \<open>price_per_unit\<close> take part in a computation;
  \<open>name\<close>, \<open>unit\<close> and \<open>description\<close> are display texts and are left out.\<close>

record MaterialPrice =
  price_id :: string
  price_per_unit :: real

definition MATERIAL_COSTS_2025 :: "MaterialPrice list" where
  "MATERIAL_COSTS_2025 =
     [\<lparr>price_id = ''pipe_16mm'', price_per_unit = 4.5\<rparr>,
      \<lparr>price_id = ''pipe_20mm'', price_per_unit = 5.8\<rparr>,
      \<lparr>price_id = ''eps_plate_30mm'', price_per_unit = 8.5\<rparr>,
      \<lparr>price_id = ''eps_plate_50mm'', price_per_unit = 12.0\<rparr>,
      \<lparr>price_id = ''alu_sheet'', price_per_unit = 18.0\<rparr>,
      \<lparr>price_id = ''window_single'', price_per_unit = 150.0\<rparr>,
      \<lparr>price_id = ''window_double'', price_per_unit = 280.0\<rparr>,
      \<lparr>price_id = ''window_triple'', price_per_unit = 450.0\<rparr>,
      \<lparr>price_id = ''manifold'', price_per_unit = 350.0\<rparr>,
      \<lparr>price_id = ''pump'', price_per_unit = 420.0\<rparr>,
      \<lparr>price_id = ''thermostat'', price_per_unit = 85.0\<rparr>]"

record BudgetItem =
  material_id :: string
  quantity :: real
  unit_price :: real
  total_price :: real

record Budget =
  total_budget :: real
  items :: "BudgetItem list"
  total_spent :: real
  remaining_budget :: real

definition getMaterialPrice :: "string \<Rightarrow> MaterialPrice option" where
  "getMaterialPrice materialId = find (\<lambda>m. price_id m = materialId) MATERIAL_COSTS_2025"

text \<open>The \<^verbatim>\<open>for (const item of items)\<close> loop with its accumulators \<open>budgetItems\<close> and
  \<open>totalSpent\<close>; an unknown material is skipped.\<close>

fun budgetLoop :: "BudgetItem list \<Rightarrow> real \<Rightarrow> (string \<times> real) list \<Rightarrow> BudgetItem list \<times> real" where
  "budgetLoop budgetItems totalSpent [] = (budgetItems, totalSpent)"
| "budgetLoop budgetItems totalSpent ((mid, qty) # rest) =
     (case getMaterialPrice mid of
        None \<Rightarrow> budgetLoop budgetItems totalSpent rest
      | Some material \<Rightarrow>
          (let itemTotal = price_per_unit material * qty
           in budgetLoop
                (budgetItems @ [\<lparr>material_id = mid, quantity = qty,
                                  unit_price = price_per_unit material, total_price = itemTotal\<rparr>])
                (totalSpent + itemTotal) rest))"

definition calculateBudget :: "real \<Rightarrow> (string \<times> real) list \<Rightarrow> Budget" where
  "calculateBudget totalBudget its =
     (let (budgetItems, totalSpent) = budgetLoop [] 0 its
      in \<lparr>total_budget = totalBudget, items = budgetItems, total_spent = totalSpent,
          remaining_budget = totalBudget - totalSpent\<rparr>)"

subsection \<open>Layout generator and circuit solver (HydraulicSolver.ts)\<close>

definition WATER_SPECIFIC_HEAT :: real where
  "WATER_SPECIFIC_HEAT = 4186"

definition TYPICAL_TEMP_DROP :: real where
  "TYPICAL_TEMP_DROP = 5"

definition BASE_HEAT_OUTPUT_PER_METER :: real where
  "BASE_HEAT_OUTPUT_PER_METER = 10"

definition HEAT_OUTPUT_TEMP_COEFFICIENT :: real where
  "HEAT_OUTPUT_TEMP_COEFFICIENT = 2"

definition STANDARD_ROOM_TEMP :: real where
  "STANDARD_ROOM_TEMP = 21"

text \<open>The two temperature fields are prefixed with \<open>design_\<close>: \<open>HeatingCircuit\<close> has fields
  of the same name. Likewise \<open>solution_flow_rate\<close> below.\<close>

record CircuitDesignParams =
  room_area :: real
  pipe_spacing :: real
  room_width :: real
  room_length :: real
  pipe_diameter :: real
  design_supply_temperature :: real
  design_return_temperature :: real
  heat_output_required :: real

record CircuitSolution =
  circuit :: HeatingCircuit
  total_length :: real
  pressure_loss :: real
  is_critical :: bool
  budget :: Budget
  estimated_heat_output :: real
  solution_flow_rate :: real

text \<open>The local variables of \<open>generateSerpentineLayout\<close> that the \<open>while\<close> loop changes.\<close>

record LayoutState =
  layout_segments :: "PipeSegment list"
  segmentId :: nat
  currentY :: real
  direction :: int

text \<open>One pass through the loop body: a straight run over the full width at \<open>currentY\<close>,
  a turn to the next row when that row still starts below \<open>room_length\<close>, then
  \<open>currentY = nextY\<close> and \<open>direction *= -1\<close>.\<close>

definition serpentineBody :: "CircuitDesignParams \<Rightarrow> LayoutState \<Rightarrow> LayoutState" where
  "serpentineBody params st =
     (let spacing = pipe_spacing params;
          startX = (if direction st = 1 then 0 else room_width params);
          endX = (if direction st = 1 then room_width params else 0);
          run = \<lparr>seg_id = Seg (segmentId st),
                 start = \<lparr>px = startX, py = currentY st\<rparr>,
                 end_point = \<lparr>px = endX, py = currentY st\<rparr>,
                 diameter = pipe_diameter params, is_curved = False,
                 control_points = None, bend_radius = None\<rparr>;
          nextY = currentY st + spacing;
          turn = \<lparr>seg_id = Seg (segmentId st + 1),
                  start = \<lparr>px = endX, py = currentY st\<rparr>,
                  end_point = \<lparr>px = endX, py = nextY\<rparr>,
                  diameter = pipe_diameter params, is_curved = True,
                  control_points = None, bend_radius = Some (spacing / 2)\<rparr>
      in if nextY < room_length params
         then \<lparr>layout_segments = layout_segments st @ [run, turn],
               segmentId = segmentId st + 2, currentY = nextY, direction = direction st * (- 1)\<rparr>
         else \<lparr>layout_segments = layout_segments st @ [run],
               segmentId = segmentId st + 1, currentY = nextY, direction = direction st * (- 1)\<rparr>)"

text \<open>The \<^verbatim>\<open>while (currentY < length)\<close> loop. It need not terminate, so it is a partial
  function: \<open>None\<close> is a loop that runs forever.\<close>

partial_function (option) serpentineLoop ::
    "CircuitDesignParams \<Rightarrow> LayoutState \<Rightarrow> PipeSegment list option" where
  "serpentineLoop params st =
     (if currentY st < room_length params
      then serpentineLoop params (serpentineBody params st)
      else Some (layout_segments st))"

definition generateSerpentineLayout :: "CircuitDesignParams \<Rightarrow> PipeSegment list option" where
  "generateSerpentineLayout params =
     serpentineLoop params
       \<lparr>layout_segments = [], segmentId = 0, currentY = pipe_spacing params / 2, direction = 1\<rparr>"

definition calculateRequiredFlowRate :: "real \<Rightarrow> real \<Rightarrow> real \<Rightarrow> real" where
  "calculateRequiredFlowRate heatOutput supplyTemp returnTemp =
     (let deltaT = supplyTemp - returnTemp;
          massFlowRate = heatOutput / (WATER_SPECIFIC_HEAT * deltaT);
          volumeFlowRate = massFlowRate / WATER_DENSITY
      in volumeFlowRate * 1000 * 3600)"

definition estimateHeatOutput :: "real \<Rightarrow> real \<Rightarrow> real \<Rightarrow> real \<Rightarrow> real option \<Rightarrow> real" where
  "estimateHeatOutput pipeLength supplyTemp roomTemp pipeSpacing returnTemp =
     (let effectiveReturnTemp =
            (case returnTemp of Some t \<Rightarrow> t | None \<Rightarrow> supplyTemp - TYPICAL_TEMP_DROP);
          avgTemp = (supplyTemp + effectiveReturnTemp) / 2;
          deltaT = avgTemp - roomTemp;
          q_per_meter = BASE_HEAT_OUTPUT_PER_METER + deltaT * HEAT_OUTPUT_TEMP_COEFFICIENT
      in pipeLength * q_per_meter)"

text \<open>The solver returns \<open>None\<close> exactly when the layout loop does not terminate; nothing
  else in it can run forever or throw.\<close>

definition solveHydraulicCircuit ::
    "CircuitDesignParams \<Rightarrow> string \<Rightarrow> real \<Rightarrow> CircuitSolution option" where
  "solveHydraulicCircuit params roomId totalBudget =
     (let flowRate = calculateRequiredFlowRate (heat_output_required params)
                       (design_supply_temperature params) (design_return_temperature params)
      in case generateSerpentineLayout params of
           None \<Rightarrow> None
         | Some segs \<Rightarrow>
             (let circ = \<lparr>circuit_id = ''circuit_'' @ roomId, room_id = roomId,
                          segments = segs, flow_rate = flowRate,
                          supply_temperature = design_supply_temperature params,
                          return_temperature = design_return_temperature params\<rparr>;
                  totalLength = calculateCircuitLength circ;
                  pressureLoss = calculatePressureLoss circ;
                  isCrit = isCriticalCircuit circ;
                  pipeType = (if pipe_diameter params \<ge> 0.02 then ''pipe_20mm'' else ''pipe_16mm'');
                  materialItems =
                    [(pipeType, totalLength), (''eps_plate_30mm'', room_area params),
                     (''alu_sheet'', room_area params), (''manifold'', 1), (''thermostat'', 1)];
                  budg = calculateBudget totalBudget materialItems;
                  estimatedOutput = estimateHeatOutput totalLength
                                      (design_supply_temperature params) STANDARD_ROOM_TEMP
                                      (pipe_spacing params) None
              in Some \<lparr>circuit = circ, total_length = totalLength, pressure_loss = pressureLoss,
                       is_critical = isCrit, budget = budg,
                       estimated_heat_output = estimatedOutput,
                       solution_flow_rate = flowRate\<rparr>))"

definition kitchenParams :: CircuitDesignParams where
  "kitchenParams =
     \<lparr>room_area = 13.0, pipe_spacing = 0.125, room_width = 3.5, room_length = 3.7,
      pipe_diameter = 0.016, design_supply_temperature = 35, design_return_temperature = 30,
      heat_output_required = 1300\<rparr>"

definition solveKitchenPrototype :: "CircuitSolution option" where
  "solveKitchenPrototype = solveHydraulicCircuit kitchenParams ''kitchen'' 15000"

subsection \<open>The pressure loss as a function of length, flow rate and diameter\<close>

text \<open>\<open>calculatePressureLoss\<close> reads three quantities from a circuit that has a first
  segment: the total length, the flow rate (L/h) and the first segment's diameter.
  \<open>pressureLossOf\<close> is its Darcy-Weisbach chain on these three; lemma
  \<open>calculatePressureLoss_Cons\<close> below connects the two. \<open>frictionArgument\<close> is the
  argument of the logarithm in the Swamee-Jain friction factor, \<open>term1 + term2\<close>.\<close>

definition flowVelocity :: "real \<Rightarrow> real \<Rightarrow> real" where
  "flowVelocity flowRate diam = flowRate / 3600 / 1000 / (pi * (diam / 2)\<^sup>2)"

definition frictionArgument :: "real \<Rightarrow> real \<Rightarrow> real" where
  "frictionArgument flowRate diam =
     PIPE_ROUGHNESS / (3.7 * diam)
     + 5.74 / (calculateReynolds (flowVelocity flowRate diam) diam powr 0.9)"

definition pressureLossOf :: "real \<Rightarrow> real \<Rightarrow> real \<Rightarrow> real" where
  "pressureLossOf len flowRate diam =
     0.25 / (log 10 (frictionArgument flowRate diam))\<^sup>2
     * (len / diam)
     * (WATER_DENSITY * (flowVelocity flowRate diam)\<^sup>2 / 2)
     * 0.01"

subsection \<open>Synthetic test circuit\<close>

text \<open>A one-segment circuit (a straight run of length \<open>len\<close> along the x axis, diameter
  0.1 micrometre, flow rate 3.6e6 L/h) used to reach a prescribed pressure loss: the loss
  is linear in \<open>len\<close>.\<close>

definition syntheticCircuit :: "real \<Rightarrow> HeatingCircuit" where
  "syntheticCircuit len =
     \<lparr>circuit_id = ''circuit_test'', room_id = ''test'',
      segments = [\<lparr>seg_id = Seg 0, start = \<lparr>px = 0, py = 0\<rparr>,
                   end_point = \<lparr>px = len, py = 0\<rparr>, diameter = 1 / 10000000,
                   is_curved = False, control_points = None, bend_radius = None\<rparr>],
      flow_rate = 3600000, supply_temperature = 35, return_temperature = 30\<rparr>"

text \<open>A one-segment circuit with a straight run of length \<open>len\<close> along the x axis, for
  comparing circuits that differ in one of length, flow rate and diameter.\<close>

definition straightPipeCircuit :: "real \<Rightarrow> real \<Rightarrow> real \<Rightarrow> HeatingCircuit" where
  "straightPipeCircuit len flowRate diam =
     \<lparr>circuit_id = ''circuit_test'', room_id = ''test'',
      segments = [\<lparr>seg_id = Seg 0, start = \<lparr>px = 0, py = 0\<rparr>,
                   end_point = \<lparr>px = len, py = 0\<rparr>, diameter = diam,
                   is_curved = False, control_points = None, bend_radius = None\<rparr>],
      flow_rate = flowRate, supply_temperature = 35, return_temperature = 30\<rparr>"

subsection \<open>Heat grid simulator (heat-simulation.js)\<close>

text \<open>
  The simulator object. \<open>rows\<close> and \<open>cols\<close> are integers, as \<^verbatim>\<open>Math.ceil\<close> leaves them
  (a negative \<open>cols\<close> is possible with \<open>rows = 0\<close>). The two buffers are lists of rows.
  \<open>walls\<close> is left out: \<open>addWall\<close> appends to it and nothing reads it. \<open>console\<close> is not a
  field of the class: it is the text the methods have written with \<^verbatim>\<open>console.warn\<close> and
  \<^verbatim>\<open>console.log\<close>, carried along so that printing is part of the model.

  Failures: \<open>RangeError\<close> is thrown by \<^verbatim>\<open>Array(n)\<close> for a length that is negative, not
  finite or above \<open>2^32 - 1\<close>; \<open>TypeError\<close> by indexing a row that does not exist.
  \<open>NaNCell\<close> is not an exception of the source: it marks the one place where the source
  stores NaN in the grid (a grid with rows but no columns), which a real-valued grid cannot
  hold.
\<close>

datatype js_failure = RangeError | TypeError | NaNCell

datatype console_line = Warn_unstable | Log_converged nat

record HeatSource =
  row :: int
  col :: int
  temperature :: real

record HeatSimulation =
  width :: real
  height :: real
  gridSize :: real
  cols :: int
  rows :: int
  temp :: "real list list"
  tempNext :: "real list list"
  heatSources :: "HeatSource list"
  outsideTemp :: real
  console :: "console_line list"


text \<open>\<open>addHeatSource\<close>: with a zero \<open>gridSize\<close> the indices are infinite or NaN and every
  comparison of the range test is false.\<close>

definition addHeatSource :: "real \<Rightarrow> real \<Rightarrow> real \<Rightarrow> HeatSimulation \<Rightarrow> HeatSimulation" where
  "addHeatSource x y t s =
     (if gridSize s = 0 then s
      else
        (let c = \<lfloor>x / gridSize s\<rfloor>; r = \<lfloor>y / gridSize s\<rfloor>
         in if r \<ge> 0 \<and> r < rows s \<and> c \<ge> 0 \<and> c < cols s
            then s\<lparr>heatSources := heatSources s @ [\<lparr>row = r, col = c, temperature = t\<rparr>]\<rparr>
            else s))"

definition applyBoundary :: "HeatSimulation \<Rightarrow> real \<Rightarrow> real" where
  "applyBoundary s t =
     (let uValue = 1.4; heatLoss = uValue * (t - outsideTemp s) * 0.01 in t - heatLoss)"

text \<open>\<^verbatim>\<open>grid[i][j] = v\<close> for indices inside the grid.\<close>

definition setCell :: "real list list \<Rightarrow> nat \<Rightarrow> nat \<Rightarrow> real \<Rightarrow> real list list" where
  "setCell g i j v = g[i := (g ! i)[j := v] ]"

text \<open>The \<open>forEach\<close> over the heat sources: each source in range is pinned in \<open>temp\<close>.\<close>

definition applyHeatSources :: "HeatSimulation \<Rightarrow> real list list" where
  "applyHeatSources s =
     foldl (\<lambda>g source.
              if row source \<ge> 0 \<and> row source < rows s \<and> col source \<ge> 0 \<and> col source < cols s
              then setCell g (nat (row source)) (nat (col source)) (temperature source)
              else g)
       (temp s) (heatSources s)"

text \<open>The 5-point stencil over the interior cells, written into \<open>next\<close>.\<close>

definition diffuseInterior ::
    "real \<Rightarrow> nat \<Rightarrow> nat \<Rightarrow> real list list \<Rightarrow> real list list \<Rightarrow> real list list" where
  "diffuseInterior r R C cur next =
     foldl (\<lambda>g i.
              foldl (\<lambda>g j.
                       (let laplacian = cur ! (i - 1) ! j + cur ! (i + 1) ! j
                                        + cur ! i ! (j - 1) + cur ! i ! (j + 1)
                                        - 4 * cur ! i ! j
                        in setCell g i j (cur ! i ! j + r * laplacian)))
                g [1..<C - 1])
       next [1..<R - 1]"

text \<open>The two boundary passes: first and last row for every column, then first and last
  column for every row.\<close>

definition boundaryRows ::
    "HeatSimulation \<Rightarrow> nat \<Rightarrow> nat \<Rightarrow> real list list \<Rightarrow> real list list \<Rightarrow> real list list" where
  "boundaryRows s R C cur next =
     foldl (\<lambda>g j. setCell (setCell g 0 j (applyBoundary s (cur ! 0 ! j)))
                     (R - 1) j (applyBoundary s (cur ! (R - 1) ! j)))
       next [0..<C]"

definition boundaryCols ::
    "HeatSimulation \<Rightarrow> nat \<Rightarrow> nat \<Rightarrow> real list list \<Rightarrow> real list list \<Rightarrow> real list list" where
  "boundaryCols s R C cur next =
     foldl (\<lambda>g i. setCell (setCell g i 0 (applyBoundary s (cur ! i ! 0)))
                     i (C - 1) (applyBoundary s (cur ! i ! (C - 1))))
       next [0..<R]"

text \<open>
  One simulation step. Without rows, the first boundary loop reads \<^verbatim>\<open>this.temp[0][j]\<close> of a
  missing row as soon as there is a column (\<open>TypeError\<close>); with no column either, nothing
  runs but the swap. With rows and no column the second boundary loop stores
  \<^verbatim>\<open>applyBoundary(undefined)\<close>, which is NaN. Otherwise every index is inside the grid.
\<close>

definition step :: "real \<Rightarrow> HeatSimulation \<Rightarrow> js_failure + HeatSimulation" where
  "step deltaTime s =
     (let alpha = 0.0001;
          dx = gridSize s;
          dt = deltaTime;
          r = alpha * dt / (dx * dx);
          out = (if r > 0.25 then console s @ [Warn_unstable] else console s);
          cur = applyHeatSources s
      in if rows s \<le> 0 then
           (if 1 \<le> cols s then Inl TypeError
            else Inr (s\<lparr>temp := tempNext s, tempNext := cur, console := out\<rparr>))
         else if cols s \<le> 0 then Inl NaNCell
         else
           (let R = nat (rows s); C = nat (cols s);
                next1 = diffuseInterior r R C cur (tempNext s);
                next2 = boundaryRows s R C cur next1;
                next3 = boundaryCols s R C cur next2
            in Inr (s\<lparr>temp := next3, tempNext := cur, console := out\<rparr>)))"





subsection \<open>Specification vocabulary for the simulator\<close>

text \<open>A sequence of \<open>step\<close> calls, one per given \<open>deltaTime\<close>, stopping at the first
  failure; \<open>stepsDefault n\<close> is \<open>n\<close> calls of \<open>step()\<close>.\<close>

fun stepMany :: "real list \<Rightarrow> HeatSimulation \<Rightarrow> js_failure + HeatSimulation" where
  "stepMany [] s = Inr s"
| "stepMany (dt # dts) s = (case step dt s of Inl e \<Rightarrow> Inl e | Inr s1 \<Rightarrow> stepMany dts s1)"

definition stepsDefault :: "nat \<Rightarrow> HeatSimulation \<Rightarrow> js_failure + HeatSimulation" where
  "stepsDefault n s = stepMany (replicate n 1) s"



section \<open>Geometry kernel: segment length\<close>

lemma distance_nonneg: "0 \<le> distance p q"
  by (simp add: distance_def Let_def)

lemma distance_same_y: "py p = py q \<Longrightarrow> distance p q = \<bar>px q - px p\<bar>"
  by (simp add: distance_def Let_def)

lemma distance_same_x: "px p = px q \<Longrightarrow> distance p q = \<bar>py q - py p\<bar>"
  by (simp add: distance_def Let_def)

text \<open>
  Claim C3. For an arc segment (\<open>is_curved\<close> with a bend radius \<open>r > 0\<close>) the length is
  \<open>r * 2 * asin (clamp (chord / (2 r)))\<close> with the ratio clamped to \<open>[-1, 1]\<close>, where chord
  is the Euclidean distance between start and end. When the chord exceeds \<open>2 r\<close> the
  clamp takes over and the length is that of the half circle, \<open>pi * r\<close>; a chord of exactly
  \<open>2 r\<close> gives \<open>pi * r\<close> as well.
\<close>

theorem arc_segment_length:
  assumes "is_curved s" and "bend_radius s = Some r" and "0 < r"
  shows "calculateSegmentLength s =
           r * (2 * arcsin (max (- 1) (min 1 (distance (start s) (end_point s) / (2 * r)))))
         \<and> (distance (start s) (end_point s) > 2 * r \<longrightarrow> calculateSegmentLength s = pi * r)
         \<and> (distance (start s) (end_point s) = 2 * r \<longrightarrow> calculateSegmentLength s = pi * r)"
proof -
  let ?chord = "distance (start s) (end_point s)"
  have general: "calculateSegmentLength s =
           r * (2 * arcsin (max (- 1) (min 1 (?chord / (2 * r)))))"
    using assms by (simp add: calculateSegmentLength_def Let_def)
  have clamped: "calculateSegmentLength s = pi * r" if "?chord > 2 * r"
  proof -
    from that have "1 < ?chord / (2 * r)"
      using assms(3) by (simp add: field_simps)
    then have "max (- 1) (min 1 (?chord / (2 * r))) = 1"
      by simp
    then show ?thesis
      using general by simp
  qed
  have diameter_chord: "calculateSegmentLength s = pi * r" if "?chord = 2 * r"
  proof -
    from that have "?chord / (2 * r) = 1"
      using assms(3) by simp
    then show ?thesis
      using general by simp
  qed
  show ?thesis
    using general clamped diameter_chord by blast
qed

theorem arc_segment_length_witness:
  "(let s = \<lparr>seg_id = Seg 1, start = \<lparr>px = 3, py = 1 / 16\<rparr>,
              end_point = \<lparr>px = 3, py = 3 / 16\<rparr>, diameter = 2 / 125, is_curved = True,
              control_points = None, bend_radius = Some (1 / 16)\<rparr>
    in is_curved s \<and> bend_radius s = Some (1 / 16) \<and> (0::real) < 1 / 16
       \<and> distance (start s) (end_point s) = 2 * (1 / 16)
       \<and> calculateSegmentLength s = pi * (1 / 16))
   \<and> (let s = \<lparr>seg_id = Seg 2, start = \<lparr>px = 0, py = 0\<rparr>,
              end_point = \<lparr>px = 1, py = 0\<rparr>, diameter = 2 / 125, is_curved = True,
              control_points = None, bend_radius = Some (1 / 4)\<rparr>
    in is_curved s \<and> bend_radius s = Some (1 / 4) \<and> (0::real) < 1 / 4
       \<and> distance (start s) (end_point s) > 2 * (1 / 4)
       \<and> calculateSegmentLength s = pi * (1 / 4))"
  using arc_segment_length
          [of "\<lparr>seg_id = Seg 1, start = \<lparr>px = 3, py = 1 / 16\<rparr>,
              end_point = \<lparr>px = 3, py = 3 / 16\<rparr>, diameter = 2 / 125, is_curved = True,
              control_points = None, bend_radius = Some (1 / 16)\<rparr>" "1 / 16"]
        arc_segment_length
          [of "\<lparr>seg_id = Seg 2, start = \<lparr>px = 0, py = 0\<rparr>,
              end_point = \<lparr>px = 1, py = 0\<rparr>, diameter = 2 / 125, is_curved = True,
              control_points = None, bend_radius = Some (1 / 4)\<rparr>" "1 / 4"]
  by (simp add: distance_same_x distance_same_y)

text \<open>
  Claim C10. A segment marked curved whose bend radius is absent or zero and whose control
  point list is absent or empty gets the straight-line distance between start and end:
  the fallback after the arc and the spline branch.
\<close>

theorem curved_fallback_straight:
  assumes "is_curved s"
    and "bend_radius s = None \<or> bend_radius s = Some 0"
    and "control_points s = None \<or> control_points s = Some []"
  shows "calculateSegmentLength s =
           sqrt ((px (end_point s) - px (start s)) * (px (end_point s) - px (start s))
                 + (py (end_point s) - py (start s)) * (py (end_point s) - py (start s)))"
  using assms by (auto simp: calculateSegmentLength_def distance_def Let_def)

theorem curved_fallback_straight_witness:
  "(let s = \<lparr>seg_id = Seg 0, start = \<lparr>px = 0, py = 0\<rparr>,
              end_point = \<lparr>px = 3, py = 0\<rparr>, diameter = 2 / 125, is_curved = True,
              control_points = Some [], bend_radius = Some 0\<rparr>
    in is_curved s \<and> bend_radius s = Some 0 \<and> control_points s = Some []
       \<and> calculateSegmentLength s = 3)
   \<and> (let s = \<lparr>seg_id = Seg 0, start = \<lparr>px = 0, py = 0\<rparr>,
              end_point = \<lparr>px = 0, py = 5\<rparr>, diameter = 2 / 125, is_curved = True,
              control_points = None, bend_radius = None\<rparr>
    in is_curved s \<and> bend_radius s = None \<and> control_points s = None
       \<and> calculateSegmentLength s = 5)"
  using curved_fallback_straight
          [of "\<lparr>seg_id = Seg 0, start = \<lparr>px = 0, py = 0\<rparr>,
              end_point = \<lparr>px = 3, py = 0\<rparr>, diameter = 2 / 125, is_curved = True,
              control_points = Some [], bend_radius = Some 0\<rparr>"]
        curved_fallback_straight
          [of "\<lparr>seg_id = Seg 0, start = \<lparr>px = 0, py = 0\<rparr>,
              end_point = \<lparr>px = 0, py = 5\<rparr>, diameter = 2 / 125, is_curved = True,
              control_points = None, bend_radius = None\<rparr>"]
  by simp

section \<open>Hydraulic analyzer: pressure loss and criticality\<close>

lemma calculatePressureLoss_Cons:
  assumes "segments c = first # rest"
  shows "calculatePressureLoss c
           = pressureLossOf (calculateCircuitLength c) (flow_rate c) (diameter first)"
  using assms
  by (simp add: calculatePressureLoss_def calculateFrictionFactor_def pressureLossOf_def
        frictionArgument_def flowVelocity_def Let_def)

text \<open>
  Claim C9. A circuit with no segments has pressure loss exactly 0: the function returns
  before it reads the first segment's diameter.
\<close>

theorem pressure_loss_no_segments:
  assumes "segments c = []"
  shows "calculatePressureLoss c = 0"
  using assms by (simp add: calculatePressureLoss_def Let_def)

theorem pressure_loss_no_segments_witness:
  "segments \<lparr>circuit_id = ''circuit_kitchen'', room_id = ''kitchen'', segments = [],
             flow_rate = 224, supply_temperature = 35, return_temperature = 30\<rparr> = []
   \<and> calculatePressureLoss
        \<lparr>circuit_id = ''circuit_kitchen'', room_id = ''kitchen'', segments = [],
         flow_rate = 224, supply_temperature = 35, return_temperature = 30\<rparr> = 0"
  using pressure_loss_no_segments
          [of "\<lparr>circuit_id = ''circuit_kitchen'', room_id = ''kitchen'', segments = [],
               flow_rate = 224, supply_temperature = 35, return_temperature = 30\<rparr>"]
  by simp

lemma syntheticCircuit_length: "calculateCircuitLength (syntheticCircuit len) = \<bar>len\<bar>"
  by (simp add: syntheticCircuit_def calculateCircuitLength_def calculateSegmentLength_def
        distance_same_y)

lemma syntheticCircuit_loss:
  "calculatePressureLoss (syntheticCircuit len) = pressureLossOf \<bar>len\<bar> 3600000 (1 / 10000000)"
proof -
  have "segments (syntheticCircuit len) = [hd (segments (syntheticCircuit len))]"
    by (simp add: syntheticCircuit_def)
  from calculatePressureLoss_Cons [OF this] show ?thesis
    by (simp add: syntheticCircuit_length) (simp add: syntheticCircuit_def)
qed

lemma syntheticCircuit_loss_linear:
  "calculatePressureLoss (syntheticCircuit len)
     = \<bar>len\<bar> * calculatePressureLoss (syntheticCircuit 1)"
  by (simp add: syntheticCircuit_loss pressureLossOf_def)

text \<open>With this diameter the roughness term alone exceeds 1, so the logarithm in the
  friction factor is positive and the loss per metre is positive.\<close>

lemma syntheticCircuit_unit_loss_pos: "0 < calculatePressureLoss (syntheticCircuit 1)"
proof -
  have "0 \<le> 5.74 / (calculateReynolds (flowVelocity 3600000 (1 / 10000000)) (1 / 10000000)
                        powr 0.9)"
    by simp
  moreover have "PIPE_ROUGHNESS / (3.7 * (1 / 10000000)) = 150 / 37"
    by (simp add: PIPE_ROUGHNESS_def)
  ultimately have "1 < frictionArgument 3600000 (1 / 10000000)"
    unfolding frictionArgument_def by linarith
  then have "0 < log 10 (frictionArgument 3600000 (1 / 10000000))"
    by simp
  then have "0 < 0.25 / (log 10 (frictionArgument 3600000 (1 / 10000000)))\<^sup>2"
    by simp
  moreover have "0 < flowVelocity 3600000 (1 / 10000000)"
    by (simp add: flowVelocity_def)
  ultimately show ?thesis
    by (simp add: syntheticCircuit_loss pressureLossOf_def WATER_DENSITY_def)
qed

text \<open>
  Claim C8. A circuit is critical if and only if its pressure loss is strictly greater
  than 300 mbar; a circuit whose loss is exactly 300 mbar is not critical.
\<close>

theorem critical_iff_loss_exceeds_threshold:
  "(isCriticalCircuit c \<longleftrightarrow> calculatePressureLoss c > 300)
   \<and> (calculatePressureLoss c = 300 \<longrightarrow> \<not> isCriticalCircuit c)"
  by (simp add: isCriticalCircuit_def CRITICAL_PRESSURE_LOSS_def Let_def)

text \<open>Synthetic circuits at exactly 300 mbar, at 299.9 mbar and at 300.1 mbar.\<close>

theorem critical_iff_loss_exceeds_threshold_witness:
  "calculatePressureLoss (syntheticCircuit (300 / calculatePressureLoss (syntheticCircuit 1))) = 300
   \<and> \<not> isCriticalCircuit (syntheticCircuit (300 / calculatePressureLoss (syntheticCircuit 1)))
   \<and> \<not> isCriticalCircuit (syntheticCircuit (299.9 / calculatePressureLoss (syntheticCircuit 1)))
   \<and> isCriticalCircuit (syntheticCircuit (300.1 / calculatePressureLoss (syntheticCircuit 1)))"
  using critical_iff_loss_exceeds_threshold
          [of "syntheticCircuit (300 / calculatePressureLoss (syntheticCircuit 1))"]
        critical_iff_loss_exceeds_threshold
          [of "syntheticCircuit (299.9 / calculatePressureLoss (syntheticCircuit 1))"]
        critical_iff_loss_exceeds_threshold
          [of "syntheticCircuit (300.1 / calculatePressureLoss (syntheticCircuit 1))"]
        syntheticCircuit_unit_loss_pos
        syntheticCircuit_loss_linear [of "300 / calculatePressureLoss (syntheticCircuit 1)"]
        syntheticCircuit_loss_linear [of "299.9 / calculatePressureLoss (syntheticCircuit 1)"]
        syntheticCircuit_loss_linear [of "300.1 / calculatePressureLoss (syntheticCircuit 1)"]
  by simp

section \<open>Numeric bounds for \<open>pi\<close>, the power 0.9 and the decimal logarithm\<close>

lemma powr_nine_tenths_ge:
  fixes x y :: real
  assumes "0 < y" and "0 < x" and "y ^ 10 \<le> x ^ 9"
  shows "y \<le> x powr 0.9"
proof -
  have "y = (y ^ 10) powr (1 / 10)"
    using assms(1) by (simp add: powr_powr flip: powr_numeral)
  also have "\<dots> \<le> (x ^ 9) powr (1 / 10)"
    using assms by (intro powr_mono2) simp_all
  also have "\<dots> = x powr 0.9"
    using assms(2) by (simp add: powr_powr flip: powr_numeral)
  finally show ?thesis .
qed

lemma powr_nine_tenths_le:
  fixes x y :: real
  assumes "0 < y" and "0 < x" and "x ^ 9 \<le> y ^ 10"
  shows "x powr 0.9 \<le> y"
proof -
  have "x powr 0.9 = (x ^ 9) powr (1 / 10)"
    using assms(2) by (simp add: powr_powr flip: powr_numeral)
  also have "\<dots> \<le> (y ^ 10) powr (1 / 10)"
    using assms by (intro powr_mono2) simp_all
  also have "\<dots> = y"
    using assms(1) by (simp add: powr_powr flip: powr_numeral)
  finally show ?thesis .
qed

lemma log10_le_ratio:
  fixes a :: real
  assumes "0 < a" and "0 < n" and "a ^ n \<le> 1 / 10 ^ m"
  shows "log 10 a \<le> - real m / real n"
proof -
  have "real n * log 10 a = log 10 (a ^ n)"
    using assms(1) by (simp add: log_nat_power)
  also have "\<dots> \<le> log 10 (1 / 10 ^ m)"
    using assms by (intro log_mono) simp_all
  also have "\<dots> = - real m"
    by (simp add: log_divide log_nat_power)
  finally show ?thesis
    using assms(2) by (simp add: field_simps)
qed

lemma log10_ge_ratio:
  fixes a :: real
  assumes "0 < a" and "0 < n" and "1 / 10 ^ m \<le> a ^ n"
  shows "- real m / real n \<le> log 10 a"
proof -
  have "- real m = log 10 (1 / 10 ^ m)"
    by (simp add: log_divide log_nat_power)
  also have "\<dots> \<le> log 10 (a ^ n)"
    using assms by (intro log_mono) simp_all
  also have "\<dots> = real n * log 10 a"
    using assms(1) by (simp add: log_nat_power)
  finally show ?thesis
    using assms(2) by (simp add: field_simps)
qed


lemma sin_coeff_upto_7:
  "sin_coeff 0 = 0" "sin_coeff (Suc 0) = 1" "sin_coeff 2 = 0" "sin_coeff 3 = - 1 / 6"
  "sin_coeff 4 = 0" "sin_coeff 5 = 1 / 120" "sin_coeff 6 = 0"
  by (simp_all add: sin_coeff_def fact_numeral)

lemma sin_taylor7:
  fixes x :: real
  assumes "0 \<le> x"
  shows "x - x ^ 3 / 6 + x ^ 5 / 120 - x ^ 7 / 5040 \<le> sin x"
    and "sin x \<le> x - x ^ 3 / 6 + x ^ 5 / 120 + x ^ 7 / 5040"
proof -
  have "{..<7::nat} = {0, 1, 2, 3, 4, 5, 6}"
    by auto
  then have "(\<Sum>m<7. sin_coeff m * x ^ m) = x - x ^ 3 / 6 + x ^ 5 / 120"
    by (simp add: sin_coeff_upto_7)
  moreover have "inverse (fact 7) * \<bar>x\<bar> ^ 7 = x ^ 7 / 5040"
    using assms by (simp add: fact_numeral)
  ultimately have "\<bar>sin x - (x - x ^ 3 / 6 + x ^ 5 / 120)\<bar> \<le> x ^ 7 / 5040"
    using Maclaurin_sin_bound [of x 7] by simp
  then show "x - x ^ 3 / 6 + x ^ 5 / 120 - x ^ 7 / 5040 \<le> sin x"
    and "sin x \<le> x - x ^ 3 / 6 + x ^ 5 / 120 + x ^ 7 / 5040"
    by linarith+
qed

lemma pi_gt_314: "3.14 < pi"
proof -
  have "(157 / 300 :: real) - (157 / 300) ^ 3 / 6 + (157 / 300) ^ 5 / 120 + (157 / 300) ^ 7 / 5040 < 1 / 2"
    by (simp add: power_divide)
  then have "sin (157 / 300 :: real) < 1 / 2"
    using sin_taylor7(2) [of "157 / 300"] by linarith
  then have "sin (157 / 300 :: real) < sin (pi / 6)"
    by (simp add: sin_30)
  moreover have "(157 / 300 :: real) \<le> pi / 2" "- (pi / 2) \<le> (157 / 300 :: real)"
    using pi_ge_two by simp_all
  ultimately have "(157 / 300 :: real) < pi / 6"
    using sin_mono_less_eq [of "157 / 300" "pi / 6"] pi_ge_two by simp
  then show ?thesis by simp
qed

lemma pi_lt_315: "pi < 3.15"
proof -
  have "1 / 2 < (21 / 40 :: real) - (21 / 40) ^ 3 / 6 + (21 / 40) ^ 5 / 120 - (21 / 40) ^ 7 / 5040"
    by (simp add: power_divide)
  then have "1 / 2 < sin (21 / 40 :: real)"
    using sin_taylor7(1) [of "21 / 40"] by linarith
  then have "sin (pi / 6) < sin (21 / 40 :: real)"
    by (simp add: sin_30)
  moreover have "(21 / 40 :: real) \<le> pi / 2" "- (pi / 2) \<le> (21 / 40 :: real)"
    using pi_ge_two by simp_all
  ultimately have "pi / 6 < (21 / 40 :: real)"
    using sin_mono_less_eq [of "pi / 6" "21 / 40"] pi_ge_two by simp
  then show ?thesis by simp
qed

section \<open>Layout generator\<close>

lemma straight_run_length [simp]:
  "calculateSegmentLength
     \<lparr>seg_id = i, start = \<lparr>px = a, py = b\<rparr>, end_point = \<lparr>px = c, py = b\<rparr>,
      diameter = d, is_curved = False, control_points = cp, bend_radius = br\<rparr> = \<bar>c - a\<bar>"
  by (simp add: calculateSegmentLength_def distance_same_y)

text \<open>
  Claim C5. For a room 3 m wide and 5 m long with 0.125 m spacing (the other parameters
  are arbitrary) the generator returns a layout with exactly
  \<open>ceil ((5 - 0.125 / 2) / 0.125) = 40\<close> straight runs, and every straight run has length 3
  (within 1e-9).
\<close>

theorem serpentine_3_by_5:
  "\<exists>segs. generateSerpentineLayout (p\<lparr>room_width := 3, room_length := 5, pipe_spacing := 0.125\<rparr>)
            = Some segs
     \<and> length (filter (\<lambda>s. \<not> is_curved s) segs) = 40
     \<and> \<lceil>(5 - 0.125 / 2) / (0.125::real)\<rceil> = 40
     \<and> list_all (\<lambda>s. \<bar>calculateSegmentLength s - 3\<bar> \<le> 1 / 10 ^ 9)
          (filter (\<lambda>s. \<not> is_curved s) segs)"
  by (simp add: generateSerpentineLayout_def serpentineLoop.simps serpentineBody_def Let_def)

lemma serpentineBody_currentY [simp]:
  "currentY (serpentineBody params st) = currentY st + pipe_spacing params"
  by (simp add: serpentineBody_def Let_def)





section \<open>Circuit solver\<close>

lemma solveHydraulicCircuit_Some:
  assumes "generateSerpentineLayout params = Some segs"
  shows "\<exists>sol. solveHydraulicCircuit params roomId totalBudget = Some sol
     \<and> segments (circuit sol) = segs
     \<and> flow_rate (circuit sol)
         = calculateRequiredFlowRate (heat_output_required params)
             (design_supply_temperature params) (design_return_temperature params)
     \<and> total_length sol = calculateCircuitLength (circuit sol)
     \<and> pressure_loss sol = calculatePressureLoss (circuit sol)
     \<and> is_critical sol = isCriticalCircuit (circuit sol)"
  by (simp add: solveHydraulicCircuit_def Let_def assms)




section \<open>The kitchen prototype\<close>

text \<open>The kitchen prototype: flow rate 180000000/803551 L/h (about 224), diameter 16 mm.\<close>

lemma kitchen_velocity:
  "0.3086 \<le> flowVelocity (180000000 / 803551) 0.016"
  "flowVelocity (180000000 / 803551) 0.016 \<le> 0.3097"
proof -
  have v: "flowVelocity (180000000 / 803551) 0.016 = (781250 / 803551) / pi"
    by (simp add: flowVelocity_def power2_eq_square)
  show "0.3086 \<le> flowVelocity (180000000 / 803551) 0.016"
    unfolding v using pi_lt_315 by (simp add: field_simps)
  show "flowVelocity (180000000 / 803551) 0.016 \<le> 0.3097"
    unfolding v using pi_gt_314 by (simp add: field_simps)
qed

lemma kitchen_reynolds:
  "4918 \<le> calculateReynolds (flowVelocity (180000000 / 803551) 0.016) 0.016"
  "calculateReynolds (flowVelocity (180000000 / 803551) 0.016) 0.016 \<le> 4937"
  using kitchen_velocity
  by (simp_all add: calculateReynolds_def WATER_DENSITY_def WATER_VISCOSITY_def field_simps)

lemma kitchen_friction_argument:
  "0.002745 \<le> frictionArgument (180000000 / 803551) 0.016"
  "frictionArgument (180000000 / 803551) 0.016 \<le> 0.002758"
proof -
  let ?re = "calculateReynolds (flowVelocity (180000000 / 803551) 0.016) 0.016"
  have re: "4918 \<le> ?re" "?re \<le> 4937"
    using kitchen_reynolds by simp_all
  have "(2101::real) ^ 10 \<le> 4918 ^ 9"
    by simp
  also have "\<dots> \<le> ?re ^ 9"
    using re(1) by (intro power_mono) simp_all
  finally have lo: "2101 \<le> ?re powr 0.9"
    using re(1) by (intro powr_nine_tenths_ge) simp_all
  have "?re ^ 9 \<le> 4937 ^ 9"
    using re by (intro power_mono) simp_all
  also have "\<dots> \<le> (2110::real) ^ 10"
    by simp
  finally have hi: "?re powr 0.9 \<le> 2110"
    using re(1) by (intro powr_nine_tenths_le) simp_all
  have powr_pos: "0 < ?re powr 0.9"
    using lo by linarith
  have "5.74 / 2110 \<le> 5.74 / (?re powr 0.9)"
    using hi powr_pos by (simp add: field_simps)
  then show "0.002745 \<le> frictionArgument (180000000 / 803551) 0.016"
    by (simp add: frictionArgument_def PIPE_ROUGHNESS_def)
  have "5.74 / (?re powr 0.9) \<le> 5.74 / 2101"
    using lo powr_pos by (simp add: field_simps)
  then show "frictionArgument (180000000 / 803551) 0.016 \<le> 0.002758"
    by (simp add: frictionArgument_def PIPE_ROUGHNESS_def)
qed

lemma kitchen_log:
  "- (13 / 5) \<le> log 10 (frictionArgument (180000000 / 803551) 0.016)"
  "log 10 (frictionArgument (180000000 / 803551) 0.016) \<le> - (51 / 20)"
proof -
  let ?a = "frictionArgument (180000000 / 803551) 0.016"
  have a: "0.002745 \<le> ?a" "?a \<le> 0.002758"
    using kitchen_friction_argument by simp_all
  then have pos: "0 < ?a"
    by simp
  have "(1::real) / 10 ^ 13 \<le> 0.002745 ^ 5"
    by (simp add: power_divide)
  also have "\<dots> \<le> ?a ^ 5"
    using a(1) by (intro power_mono) simp_all
  finally show "- (13 / 5) \<le> log 10 ?a"
    using log10_ge_ratio [OF pos, of 5 13] by simp
  have "?a ^ 20 \<le> 0.002758 ^ 20"
    using a(2) pos by (intro power_mono) simp_all
  also have "\<dots> \<le> (1::real) / 10 ^ 51"
    by (simp add: power_divide)
  finally show "log 10 ?a \<le> - (51 / 20)"
    using log10_le_ratio [OF pos, of 20 51] by simp
qed


lemma pressureLossOf_factored:
  "pressureLossOf len q d
     = 0.25 / (log 10 (frictionArgument q d))\<^sup>2 * len * (flowVelocity q d)\<^sup>2
       * (WATER_DENSITY / (200 * d))"
  by (simp add: pressureLossOf_def)

lemma kitchen_loss_interval:
  "121 < pressureLossOf (105 + 29 * pi / 16) (180000000 / 803551) 0.016"
  "pressureLossOf (105 + 29 * pi / 16) (180000000 / 803551) 0.016 < 131"
proof -
  let ?l = "log 10 (frictionArgument (180000000 / 803551) 0.016)"
  let ?v = "flowVelocity (180000000 / 803551) 0.016"
  let ?L = "105 + 29 * pi / 16 :: real"
  have l: "- (13 / 5) \<le> ?l" "?l \<le> - (51 / 20)"
    using kitchen_log by simp_all
  have v: "0.3086 \<le> ?v" "?v \<le> 0.3097"
    using kitchen_velocity by simp_all
  have L: "110.69 \<le> ?L" "?L \<le> 110.71"
    using pi_gt_314 pi_lt_315 by simp_all
  have l2: "(51 / 20)\<^sup>2 \<le> ?l\<^sup>2" "?l\<^sup>2 \<le> (13 / 5)\<^sup>2"
    using l by (simp_all add: abs_le_square_iff [symmetric])
  then have l2_pos: "0 < ?l\<^sup>2"
    by (simp add: power2_eq_square) 
  have f: "25 / 676 \<le> 0.25 / ?l\<^sup>2" "0.25 / ?l\<^sup>2 \<le> 100 / 2601"
    using l2 l2_pos by (simp_all add: field_simps power2_eq_square)
  have v2: "0.3086\<^sup>2 \<le> ?v\<^sup>2" "?v\<^sup>2 \<le> 0.3097\<^sup>2"
    using v by (simp_all add: abs_le_square_iff [symmetric])
  have eq: "pressureLossOf ?L (180000000 / 803551) 0.016
              = (0.25 / ?l\<^sup>2) * ?L * ?v\<^sup>2 * (4991 / 16)"
    by (simp add: pressureLossOf_factored WATER_DENSITY_def)
  have "121 < (25 / 676) * 110.69 * 0.3086\<^sup>2 * (4991 / 16 :: real)"
    by (simp add: power2_eq_square)
  also have "\<dots> \<le> (0.25 / ?l\<^sup>2) * ?L * ?v\<^sup>2 * (4991 / 16)"
    using f(1) L(1) v2(1) by (intro mult_mono) simp_all
  finally show "121 < pressureLossOf ?L (180000000 / 803551) 0.016"
    unfolding eq .
  have "(0.25 / ?l\<^sup>2) * ?L * ?v\<^sup>2 * (4991 / 16)
          \<le> (100 / 2601) * 110.71 * 0.3097\<^sup>2 * (4991 / 16 :: real)"
    using f L v2 l2_pos by (intro mult_mono) simp_all
  also have "\<dots> < 131"
    by (simp add: power2_eq_square)
  finally show "pressureLossOf ?L (180000000 / 803551) 0.016 < 131"
    unfolding eq .
qed


lemma turn_length [simp]:
  "r \<noteq> 0 \<Longrightarrow> calculateSegmentLength
     \<lparr>seg_id = i, start = \<lparr>px = a, py = b\<rparr>, end_point = \<lparr>px = a, py = c\<rparr>,
      diameter = d, is_curved = True, control_points = cp, bend_radius = Some r\<rparr>
   = r * (2 * arcsin (max (- 1) (min 1 (\<bar>c - b\<bar> / (2 * r)))))"
  by (simp add: calculateSegmentLength_def distance_same_x Let_def)

lemma kitchen_layout:
  "\<exists>first rest. generateSerpentineLayout kitchenParams = Some (first # rest)
     \<and> diameter first = 0.016
     \<and> foldl (\<lambda>total segment. total + calculateSegmentLength segment) 0 (first # rest)
         = 105 + 29 * pi / 16"
  by (simp add: generateSerpentineLayout_def kitchenParams_def serpentineLoop.simps
        serpentineBody_def Let_def)

text \<open>
  Claim C1. The kitchen prototype (13 square metres, spacing 0.125 m, 3.5 m by 3.7 m, diameter 16 mm,
  35/30 degrees, 1300 W) returns a solution whose total length is within 1 m of 110.7 m
  (it is \<open>105 + 29 pi / 16\<close>: 30 runs of 3.5 m and 29 half-circle turns of radius 1/16 m),
  whose pressure loss is within 5 mbar of 126 mbar, and which is not critical.
\<close>

theorem kitchen_prototype:
  "\<exists>sol. solveKitchenPrototype = Some sol
     \<and> \<bar>total_length sol - 110.7\<bar> < 1
     \<and> \<bar>pressure_loss sol - 126\<bar> < 5
     \<and> \<not> is_critical sol"
proof -
  obtain first rest where layout: "generateSerpentineLayout kitchenParams = Some (first # rest)"
    and diam: "diameter first = 0.016"
    and total: "foldl (\<lambda>total segment. total + calculateSegmentLength segment) 0 (first # rest)
                  = 105 + 29 * pi / 16"
    using kitchen_layout by blast
  from solveHydraulicCircuit_Some [OF layout, of "''kitchen''" 15000]
  obtain sol where sol: "solveKitchenPrototype = Some sol"
    and segs: "segments (circuit sol) = first # rest"
    and flow: "flow_rate (circuit sol) = calculateRequiredFlowRate 1300 35 30"
    and len: "total_length sol = calculateCircuitLength (circuit sol)"
    and loss: "pressure_loss sol = calculatePressureLoss (circuit sol)"
    and crit: "is_critical sol = isCriticalCircuit (circuit sol)"
    by (auto simp: solveKitchenPrototype_def kitchenParams_def)
  have flow': "flow_rate (circuit sol) = 180000000 / 803551"
    by (simp add: flow calculateRequiredFlowRate_def WATER_SPECIFIC_HEAT_def WATER_DENSITY_def)
  have len': "total_length sol = 105 + 29 * pi / 16"
    by (simp only: len calculateCircuitLength_def segs total)
  have loss': "pressure_loss sol = pressureLossOf (105 + 29 * pi / 16) (180000000 / 803551) 0.016"
    by (simp only: loss calculatePressureLoss_Cons [OF segs] flow' diam len [symmetric] len')
  have "\<bar>total_length sol - 110.7\<bar> < 1"
    unfolding len' using pi_gt_314 pi_lt_315 by (simp add: abs_less_iff)
  moreover have "\<bar>pressure_loss sol - 126\<bar> < 5"
    unfolding loss' using kitchen_loss_interval by (simp add: abs_less_iff)
  moreover have "\<not> is_critical sol"
    using kitchen_loss_interval(2)
    by (simp add: crit isCriticalCircuit_def CRITICAL_PRESSURE_LOSS_def loss [symmetric] loss')
  ultimately show ?thesis
    using sol by blast
qed


section \<open>Monotonicity of the pressure loss\<close>

text \<open>The Reynolds number is proportional to flow rate over diameter, so scaling the
  flow rate or the diameter by \<open>s \<ge> 1\<close> changes the argument of the friction logarithm
  by at most the factor \<open>s powr 0.9\<close>.\<close>

lemma reynolds_flowVelocity:
  "calculateReynolds (flowVelocity q d) d
     = (WATER_DENSITY / (WATER_VISCOSITY * 900000 * pi)) * (q * d / d\<^sup>2)"
  by (simp add: calculateReynolds_def flowVelocity_def power2_eq_square)



lemma reynolds_pos:
  assumes "0 < q" and "0 < d"
  shows "0 < calculateReynolds (flowVelocity q d) d"
  using assms
  by (simp add: reynolds_flowVelocity WATER_DENSITY_def WATER_VISCOSITY_def power2_eq_square)















lemma straightPipeCircuit_simps [simp]:
  "flow_rate (straightPipeCircuit len q d) = q"
  "calculateCircuitLength (straightPipeCircuit len q d) = \<bar>len\<bar>"
  by (simp_all add: straightPipeCircuit_def calculateCircuitLength_def)











section \<open>Heat grid simulator: the ambient grid is a fixed point\<close>

lemma setCell_uniform [simp]:
  "setCell (replicate R (replicate C v)) i j v = replicate R (replicate C v)"
proof -
  have "(replicate C v)[j := v] = replicate C v"
    by (cases "j < C") (auto simp: list_eq_iff_nth_eq nth_list_update)
  then show ?thesis
    by (cases "i < R") (auto simp: setCell_def list_eq_iff_nth_eq nth_list_update)
qed


















section \<open>Heat grid simulator: running to a steady state\<close>

lemma stepsDefault_0 [simp]: "stepsDefault 0 s = Inr s"
  by (simp add: stepsDefault_def)





















end
